theory Spec2Isabelle
  imports Main "HOL-Library.Word"
begin

section \<open>The command-line tokens built by \<open>convert\<close> (src/Converter.jsx, lines 58-90)\<close>

text \<open>
  The three option values are React state holding the \<open>value\<close> of a \<open>select\<close> element:
  JavaScript strings, compared with \<open>===\<close> (equality of contents).
  \<open>Array.prototype.push\<close> appends its arguments at the end of the array.
\<close>

definition push :: "'a list \<Rightarrow> 'a list \<Rightarrow> 'a list" where
  "push args items = args @ items"

text \<open>Line 65: the template literal \<^verbatim>\<open>`output.${format}`\<close>.\<close>

definition outputFilename :: "string \<Rightarrow> string" where
  "outputFilename format = ''output.'' @ format"

text \<open>
  Lines 58-90, statement by statement. The three \<open>if\<close>s of the wav branch are
  separate statements (not an else-chain); the flac branch has an \<open>if\<close> whose body is
  only comments; a format that is none of the three falls through the else-chain.
\<close>

definition convert_args :: "string \<Rightarrow> string \<Rightarrow> string \<Rightarrow> string list" where
  "convert_args format bitDepth sampleRate =
     (let args = [''-i'', ''input''];
          args = push args [''-ar'', sampleRate];
          args =
            (if format = ''wav'' then
               (let args = (if bitDepth = ''16'' then push args [''-c:a'', ''pcm_s16le''] else args);
                    args = (if bitDepth = ''24'' then push args [''-c:a'', ''pcm_s24le''] else args);
                    args = (if bitDepth = ''32'' then push args [''-c:a'', ''pcm_f32le''] else args)
                in args)
             else if format = ''flac'' then
               (if bitDepth = ''24'' \<or> bitDepth = ''32'' then args else args)
             else if format = ''mp3'' then push args [''-b:a'', ''320k'']
             else args)
      in push args [outputFilename format])"

subsection \<open>Reading a token sequence\<close>

text \<open>
  The engine takes the tokens as option/value pairs followed by one trailing output
  name. \<open>directives\<close> reads the pairs from the left, \<open>option_values opt\<close> lists, in
  order, the values given to the option \<open>opt\<close>.
\<close>

fun directives :: "string list \<Rightarrow> (string \<times> string) list" where
  "directives (opt # val # rest) = (opt, val) # directives rest"
| "directives _ = []"

definition option_values :: "string \<Rightarrow> string list \<Rightarrow> string list" where
  "option_values opt tokens = map snd (filter (\<lambda>p. fst p = opt) (directives tokens))"

section \<open>The conversion workflow: function \<open>convert\<close> (src/Converter.jsx, lines 43-113)\<close>

subsection \<open>Component state, files, engine storage, effects\<close>

text \<open>
  Lines 6-13: the component's state. The three options hold the \<open>value\<close> strings of
  the \<open>select\<close> elements. \<open>initial_state\<close> holds the \<open>useState\<close> defaults.
\<close>

record app_state =
  loaded :: bool
  isLoading :: bool
  logMessage :: string
  format :: string
  bitDepth :: string
  sampleRate :: string

definition initial_state :: app_state where
  "initial_state =
     \<lparr>loaded = False, isLoading = False, logMessage = ''Listo para convertir'',
      format = ''wav'', bitDepth = ''16'', sampleRate = ''44100''\<rparr>"

type_synonym bytes = "8 word list"

datatype error = NotReadable | ExecFailed | NoSuchFile

text \<open>
  A file picked in the \<open>uploader\<close> input. Reading a picked file can fail (the file
  was moved, deleted or is unreadable by then): \<open>file_bytes = None\<close>, and
  \<open>fetchFile\<close> (of the library \<^verbatim>\<open>@ffmpeg/util\<close>) rejects.
\<close>

record input_file =
  file_name :: string
  file_bytes :: "bytes option"

definition fetchFile :: "input_file \<Rightarrow> error + bytes" where
  "fetchFile f = (case file_bytes f of None \<Rightarrow> Inl NotReadable | Some data \<Rightarrow> Inr data)"

text \<open>The engine's virtual storage: a flat namespace of named byte buffers.\<close>

type_synonym storage = "string \<rightharpoonup> bytes"

text \<open>
  The engine's \<open>exec\<close> is a black box outside the repository, taken as a parameter:
  given the tokens and the storage it either rejects or resolves, emits log lines on
  the way, and leaves the storage in some state.
\<close>

record exec_result =
  rejects :: bool
  log_lines :: "string list"
  fs_after :: storage

type_synonym engine = "string list \<Rightarrow> storage \<Rightarrow> exec_result"

text \<open>
  Every effect of the workflow, in the order it happens: \<open>Download type name data\<close>
  is the click on an anchor whose \<open>href\<close> is a Blob of MIME type \<open>type\<close> over
  \<open>data\<close> and whose \<open>download\<close> attribute is \<open>name\<close>.
\<close>

datatype event =
    Alert string
  | SetIsLoading bool
  | SetLogMessage string
  | WriteFile string bytes
  | Exec "string list"
  | ReadFile string
  | ConsoleLog string string
  | ConsoleError error
  | Download string string bytes

text \<open>
  \<open>files\<close> is the \<open>FileList\<close> of the \<open>uploader\<close> input. The button that runs
  \<open>convert\<close> is rendered together with that input (lines 120-208), so the element
  exists whenever \<open>convert\<close> runs.
\<close>

record world =
  state :: app_state
  files :: "input_file list"
  fs :: storage
  trace :: "event list"

definition emit :: "event \<Rightarrow> world \<Rightarrow> world" where
  "emit e w = w\<lparr>trace := trace w @ [e]\<rparr>"

definition alert :: "string \<Rightarrow> world \<Rightarrow> world" where
  "alert msg w = emit (Alert msg) w"

definition setIsLoading :: "bool \<Rightarrow> world \<Rightarrow> world" where
  "setIsLoading b w = emit (SetIsLoading b) (w\<lparr>state := (state w)\<lparr>isLoading := b\<rparr>\<rparr>)"

definition setLogMessage :: "string \<Rightarrow> world \<Rightarrow> world" where
  "setLogMessage msg w = emit (SetLogMessage msg) (w\<lparr>state := (state w)\<lparr>logMessage := msg\<rparr>\<rparr>)"

text \<open>\<open>args.join(' ')\<close>\<close>

fun join :: "string \<Rightarrow> string list \<Rightarrow> string" where
  "join sep [] = []"
| "join sep [x] = x"
| "join sep (x # y # ys) = x @ sep @ join sep (y # ys)"

subsection \<open>The engine's file operations and \<open>exec\<close>, as the workflow sees them\<close>

text \<open>
  Modelled from the spec: \<open>writeFile\<close> and \<open>readFile\<close> of the external engine
  (\<^verbatim>\<open>@ffmpeg/ffmpeg\<close>) are not in the repository. Section 4.2 and 6 of the
  specification: writing stores the bytes under the name, overwriting any prior content
  under that name; reading returns the bytes stored under the name, and fails when
  nothing is stored there.
\<close>

definition writeFile :: "string \<Rightarrow> bytes \<Rightarrow> world \<Rightarrow> world" where
  "writeFile path data w = emit (WriteFile path data) (w\<lparr>fs := (fs w)(path \<mapsto> data)\<rparr>)"

definition readFile :: "string \<Rightarrow> world \<Rightarrow> (error + bytes) \<times> world" where
  "readFile path w =
     (let w = emit (ReadFile path) w
      in case fs w path of None \<Rightarrow> (Inl NoSuchFile, w) | Some data \<Rightarrow> (Inr data, w))"

text \<open>
  Lines 22-24: \<open>load\<close>, run once when the component mounts, registers a handler that
  mirrors every log line of the engine into \<open>logMessage\<close>.
\<close>

fun engine_logs :: "string list \<Rightarrow> world \<Rightarrow> world" where
  "engine_logs [] w = w"
| "engine_logs (message # rest) w = engine_logs rest (setLogMessage message w)"

definition exec :: "engine \<Rightarrow> string list \<Rightarrow> world \<Rightarrow> error option \<times> world" where
  "exec ffmpeg args w =
     (let r = ffmpeg args (fs w);
          w = emit (Exec args) w;
          w = engine_logs (log_lines r) (w\<lparr>fs := fs_after r\<rparr>)
      in (if rejects r then Some ExecFailed else None, w))"

subsection \<open>\<open>convert\<close>\<close>

text \<open>
  Line 109: the message of the catch block, \<^verbatim>\<open>Error durante la conversion.\<close> with an
  acute accent on the last \<open>o\<close> (code unit 0xF3).
\<close>

definition conversion_error_message :: string where
  "conversion_error_message = ''Error durante la conversi'' @ [CHR 0xF3] @ ''n.''"

text \<open>
  Lines 94-106, the body of the \<open>try\<close>: it returns the exception that leaves it, if
  any, with the world as it is at that moment.
\<close>

definition convert_try ::
  "engine \<Rightarrow> string list \<Rightarrow> string \<Rightarrow> string \<Rightarrow> string \<Rightarrow> string \<Rightarrow> world \<Rightarrow> error option \<times> world" where
  "convert_try ffmpeg args out fmt bits rate w =
     (case exec ffmpeg args w of
        (Some e, w) \<Rightarrow> (Some e, w)
      | (None, w) \<Rightarrow>
          (case readFile out w of
             (Inl e, w) \<Rightarrow> (Some e, w)
           | (Inr data, w) \<Rightarrow>
               (None,
                emit (Download (''audio/'' @ fmt)
                        (''convertido_'' @ rate @ ''Hz_'' @ bits @ ''bit.'' @ fmt) data) w)))"

text \<open>
  The promise an \<open>async\<close> function returns: resolved, or rejected with the exception
  that left the function body.
\<close>

datatype promise = Resolved | Rejected error

text \<open>
  Lines 43-113. The option values are those of the closure, read once. Line 55 is
  outside the \<open>try\<close>: an exception there leaves \<open>convert\<close>.
\<close>

definition convert :: "engine \<Rightarrow> world \<Rightarrow> promise \<times> world" where
  "convert ffmpeg w =
     (let fmt = format (state w); bits = bitDepth (state w); rate = sampleRate (state w)
      in case files w of
           [] \<Rightarrow> (Resolved, alert ''Por favor selecciona un archivo primero.'' w)
         | file # _ \<Rightarrow>
             (let w = setIsLoading True w
              in case fetchFile file of
                   Inl e \<Rightarrow> (Rejected e, w)
                 | Inr data \<Rightarrow>
                     (let w = writeFile ''input'' data w;
                          args = convert_args fmt bits rate;
                          w = emit (ConsoleLog ''Ejecutando comando:'' (join '' '' args)) w;
                          w = (case convert_try ffmpeg args (outputFilename fmt) fmt bits rate w of
                                 (None, w) \<Rightarrow> w
                               | (Some e, w) \<Rightarrow>
                                   setLogMessage conversion_error_message (emit (ConsoleError e) w))
                      in (Resolved, setIsLoading False w))))"

subsection \<open>Reading a run of the workflow\<close>

text \<open>
  The tokens \<open>convert\<close> builds in a world, and the outcome of the engine's \<open>exec\<close>
  on them once \<open>data\<close> has been written under the name \<open>input\<close>.
\<close>

definition tokens_of :: "world \<Rightarrow> string list" where
  "tokens_of w = convert_args (format (state w)) (bitDepth (state w)) (sampleRate (state w))"

definition engine_run :: "engine \<Rightarrow> world \<Rightarrow> bytes \<Rightarrow> exec_result" where
  "engine_run ffmpeg w data = ffmpeg (tokens_of w) ((fs w)(''input'' \<mapsto> data))"

text \<open>The events a run added to the trace of the world it started in.\<close>

definition new_events :: "world \<Rightarrow> world \<Rightarrow> event list" where
  "new_events w w' = drop (length (trace w)) (trace w')"

fun is_Exec :: "event \<Rightarrow> bool" where
  "is_Exec (Exec _) = True"
| "is_Exec _ = False"

fun is_Download :: "event \<Rightarrow> bool" where
  "is_Download (Download _ _ _) = True"
| "is_Download _ = False"

fun is_engine_call :: "event \<Rightarrow> bool" where
  "is_engine_call (WriteFile _ _) = True"
| "is_engine_call (Exec _) = True"
| "is_engine_call (ReadFile _) = True"
| "is_engine_call _ = False"

fun is_state_change :: "event \<Rightarrow> bool" where
  "is_state_change (SetIsLoading _) = True"
| "is_state_change (SetLogMessage _) = True"
| "is_state_change _ = False"

subsection \<open>Sample worlds and engines\<close>

text \<open>The component after a successful \<open>load\<close>, with the given files picked.\<close>

definition ready_world :: "app_state \<Rightarrow> input_file list \<Rightarrow> world" where
  "ready_world st fl = \<lparr>state = st\<lparr>loaded := True\<rparr>, files = fl, fs = Map.empty, trace = []\<rparr>"

text \<open>An engine whose \<open>exec\<close> always rejects, after one log line, touching nothing.\<close>

definition failing_engine :: engine where
  "failing_engine args store =
     \<lparr>rejects = True, log_lines = [''Conversion failed!''], fs_after = store\<rparr>"

text \<open>A picked file that can no longer be read, and one that can.\<close>

definition unreadable_file :: input_file where
  "unreadable_file = \<lparr>file_name = ''gone.wav'', file_bytes = None\<rparr>"

definition sample_file :: input_file where
  "sample_file = \<lparr>file_name = ''take1.ogg'', file_bytes = Some [0x4F, 0x67, 0x67, 0x53]\<rparr>"

text \<open>An engine whose \<open>exec\<close> copies the input to the name given as the last token.\<close>

definition copying_engine :: engine where
  "copying_engine args store =
     \<lparr>rejects = False, log_lines = [''size=1kB''],
      fs_after = (case store ''input'' of None \<Rightarrow> store | Some data \<Rightarrow> store(last args \<mapsto> data))\<rparr>"

text \<open>A ready component set to mp3, 24 bit, 48000 Hz, with the readable file picked.\<close>

definition mp3_world :: world where
  "mp3_world =
     ready_world (initial_state\<lparr>format := ''mp3'', bitDepth := ''24'', sampleRate := ''48000''\<rparr>)
       [sample_file]"

section \<open>Properties of the token sequence\<close>

lemma convert_args_wav:
  "convert_args ''wav'' bits rate =
     [''-i'', ''input'', ''-ar'', rate] @
     (if bits = ''16'' then [''-c:a'', ''pcm_s16le'']
      else if bits = ''24'' then [''-c:a'', ''pcm_s24le'']
      else if bits = ''32'' then [''-c:a'', ''pcm_f32le'']
      else []) @ [''output.wav'']"
  by (simp add: convert_args_def push_def outputFilename_def Let_def)

lemma convert_args_flac:
  "convert_args ''flac'' bits rate =
     [''-i'', ''input'', ''-ar'', rate, ''output.flac'']"
  by (simp add: convert_args_def push_def outputFilename_def Let_def)

lemma convert_args_mp3:
  "convert_args ''mp3'' bits rate =
     [''-i'', ''input'', ''-ar'', rate, ''-b:a'', ''320k'', ''output.mp3'']"
  by (simp add: convert_args_def push_def outputFilename_def Let_def)

lemma convert_args_other:
  "fmt \<noteq> ''wav'' \<Longrightarrow> fmt \<noteq> ''flac'' \<Longrightarrow> fmt \<noteq> ''mp3'' \<Longrightarrow>
   convert_args fmt bits rate =
     [''-i'', ''input'', ''-ar'', rate, ''output.'' @ fmt]"
  by (simp add: convert_args_def push_def outputFilename_def Let_def)

lemma convert_args_shape:
  "\<exists>mid. convert_args fmt bits rate =
     [''-i'', ''input'', ''-ar'', rate] @ mid @ [''output.'' @ fmt] \<and>
     (mid = [] \<or> (\<exists>v. mid = [''-c:a'', v]) \<or> mid = [''-b:a'', ''320k''])"
  by (simp add: convert_args_def push_def outputFilename_def Let_def)

text \<open>
  C1. With targetFormat wav, bitDepth '16' gives the codec pair ('-c:a','pcm_s16le')
  exactly once, '24' gives ('-c:a','pcm_s24le') exactly once, '32' gives
  ('-c:a','pcm_f32le') exactly once, each as the only codec directive; any other bitDepth
  inserts no codec pair: the tokens are then the input pair, the sample-rate pair and the
  output name.
\<close>

theorem wav_codec_by_bitDepth:
  "convert_args ''wav'' ''16'' rate =
     [''-i'', ''input'', ''-ar'', rate, ''-c:a'', ''pcm_s16le'', ''output.wav''] \<and>
   option_values ''-c:a'' (convert_args ''wav'' ''16'' rate) = [''pcm_s16le''] \<and>
   count_list (directives (convert_args ''wav'' ''16'' rate)) (''-c:a'', ''pcm_s16le'') = 1 \<and>
   convert_args ''wav'' ''24'' rate =
     [''-i'', ''input'', ''-ar'', rate, ''-c:a'', ''pcm_s24le'', ''output.wav''] \<and>
   option_values ''-c:a'' (convert_args ''wav'' ''24'' rate) = [''pcm_s24le''] \<and>
   count_list (directives (convert_args ''wav'' ''24'' rate)) (''-c:a'', ''pcm_s24le'') = 1 \<and>
   convert_args ''wav'' ''32'' rate =
     [''-i'', ''input'', ''-ar'', rate, ''-c:a'', ''pcm_f32le'', ''output.wav''] \<and>
   option_values ''-c:a'' (convert_args ''wav'' ''32'' rate) = [''pcm_f32le''] \<and>
   count_list (directives (convert_args ''wav'' ''32'' rate)) (''-c:a'', ''pcm_f32le'') = 1 \<and>
   (bits \<noteq> ''16'' \<and> bits \<noteq> ''24'' \<and> bits \<noteq> ''32'' \<longrightarrow>
      convert_args ''wav'' bits rate =
        [''-i'', ''input'', ''-ar'', rate, ''output.wav''] \<and>
      option_values ''-c:a'' (convert_args ''wav'' bits rate) = [])"
  by (simp add: convert_args_wav option_values_def)

theorem wav_codec_by_bitDepth_witness:
  "''8'' \<noteq> ''16'' \<and> ''8'' \<noteq> ''24'' \<and> ''8'' \<noteq> ''32'' \<and>
   convert_args ''wav'' ''8'' ''44100'' = [''-i'', ''input'', ''-ar'', ''44100'', ''output.wav''] \<and>
   option_values ''-c:a'' (convert_args ''wav'' ''8'' ''44100'') = [] \<and>
   option_values ''-c:a'' (convert_args ''wav'' ''24'' ''44100'') = [''pcm_s24le'']"
proof -
  have other: "''8'' \<noteq> ''16'' \<and> ''8'' \<noteq> ''24'' \<and> ''8'' \<noteq> ''32''" by simp
  from wav_codec_by_bitDepth [of "''44100''" "''8''"] other show ?thesis by blast
qed

text \<open>
  C2. With targetFormat mp3 the tokens hold the bitrate pair ('-b:a','320k'), hold no
  codec directive, and do not depend on bits. (Unless the sample-rate value is
  itself the string '-c:a', no token at all is '-c:a'.)
\<close>

theorem mp3_bitrate_no_codec:
  "convert_args ''mp3'' bits rate =
     [''-i'', ''input'', ''-ar'', rate, ''-b:a'', ''320k'', ''output.mp3''] \<and>
   (''-b:a'', ''320k'') \<in> set (directives (convert_args ''mp3'' bits rate)) \<and>
   option_values ''-b:a'' (convert_args ''mp3'' bits rate) = [''320k''] \<and>
   option_values ''-c:a'' (convert_args ''mp3'' bits rate) = [] \<and>
   (rate \<noteq> ''-c:a'' \<longrightarrow> ''-c:a'' \<notin> set (convert_args ''mp3'' bits rate)) \<and>
   convert_args ''mp3'' bits rate = convert_args ''mp3'' bits' rate"
  by (simp add: convert_args_mp3 option_values_def)

theorem mp3_bitrate_no_codec_witness:
  "''48000'' \<noteq> ''-c:a'' \<and>
   ''-c:a'' \<notin> set (convert_args ''mp3'' ''24'' ''48000'') \<and>
   convert_args ''mp3'' ''24'' ''48000'' =
     [''-i'', ''input'', ''-ar'', ''48000'', ''-b:a'', ''320k'', ''output.mp3''] \<and>
   convert_args ''mp3'' ''24'' ''48000'' = convert_args ''mp3'' ''16'' ''48000''"
proof -
  have rate: "''48000'' \<noteq> ''-c:a''" by simp
  from mp3_bitrate_no_codec [of "''24''" "''48000''" "''16''"] rate show ?thesis by blast
qed

text \<open>
  C3. With targetFormat flac, for every bitDepth (also '24' and '32'), the tokens are
  exactly the input pair, the sample-rate pair and the output name: no codec directive.
\<close>

theorem flac_no_codec:
  "convert_args ''flac'' bits rate =
     [''-i'', ''input'', ''-ar'', rate, ''output.flac''] \<and>
   option_values ''-c:a'' (convert_args ''flac'' bits rate) = [] \<and>
   directives (convert_args ''flac'' bits rate) =
     [(''-i'', ''input''), (''-ar'', rate)]"
  by (simp add: convert_args_flac option_values_def)

text \<open>
  C4. For every format, bitDepth and sampleRate the tokens begin with the input pair
  ('-i','input'), hold the sample-rate pair ('-ar', sampleRate) with the string
  unchanged, and end with 'output.' followed by the format, which is the output name
  the workflow later reads back.
\<close>

theorem input_rate_output_tokens:
  "take 4 (convert_args fmt bits rate) = [''-i'', ''input'', ''-ar'', rate] \<and>
   take 2 (directives (convert_args fmt bits rate)) =
     [(''-i'', ''input''), (''-ar'', rate)] \<and>
   option_values ''-ar'' (convert_args fmt bits rate) = [rate] \<and>
   last (convert_args fmt bits rate) = ''output.'' @ fmt \<and>
   outputFilename fmt = ''output.'' @ fmt"
proof -
  obtain mid where eq: "convert_args fmt bits rate =
      [''-i'', ''input'', ''-ar'', rate] @ mid @ [''output.'' @ fmt]"
    and mid: "mid = [] \<or> (\<exists>v. mid = [''-c:a'', v]) \<or> mid = [''-b:a'', ''320k'']"
    using convert_args_shape by blast
  from mid show ?thesis
    unfolding eq by (auto simp add: option_values_def outputFilename_def)
qed

text \<open>
  C5. The builder has no failing branch. For a format that is none of wav, flac, mp3,
  and any bitDepth, it returns exactly
  ['-i','input','-ar',sampleRate,'output.<format>']: no codec and no bitrate directive.
\<close>

theorem unknown_format_tokens:
  "fmt \<notin> {''wav'', ''flac'', ''mp3''} \<Longrightarrow>
   convert_args fmt bits rate =
     [''-i'', ''input'', ''-ar'', rate, ''output.'' @ fmt] \<and>
   option_values ''-c:a'' (convert_args fmt bits rate) = [] \<and>
   option_values ''-b:a'' (convert_args fmt bits rate) = []"
  by (simp add: convert_args_other option_values_def)

theorem unknown_format_tokens_witness:
  "''ogg'' \<notin> {''wav'', ''flac'', ''mp3''} \<and> [] \<notin> {''wav'', ''flac'', ''mp3''} \<and>
   convert_args ''ogg'' ''24'' ''48000'' = [''-i'', ''input'', ''-ar'', ''48000'', ''output.ogg''] \<and>
   convert_args [] [] [] = [''-i'', ''input'', ''-ar'', [], ''output.'']"
  using unknown_format_tokens [of "''ogg''" "''24''" "''48000''"]
        unknown_format_tokens [of "[]" "[]" "[]"] by simp

section \<open>Properties of the workflow\<close>

subsection \<open>Engine log lines, \<open>exec\<close>, and a run without a file\<close>

lemma engine_logs_state:
  "loaded (state (engine_logs ms w)) = loaded (state w) \<and>
   isLoading (state (engine_logs ms w)) = isLoading (state w) \<and>
   format (state (engine_logs ms w)) = format (state w) \<and>
   bitDepth (state (engine_logs ms w)) = bitDepth (state w) \<and>
   sampleRate (state (engine_logs ms w)) = sampleRate (state w) \<and>
   logMessage (state (engine_logs ms w)) = last (logMessage (state w) # ms)"
  by (induction ms arbitrary: w) (simp_all add: setLogMessage_def emit_def)

lemma engine_logs_world:
  "files (engine_logs ms w) = files w \<and>
   fs (engine_logs ms w) = fs w \<and>
   trace (engine_logs ms w) = trace w @ map SetLogMessage ms"
  by (induction ms arbitrary: w) (simp_all add: setLogMessage_def emit_def)

lemma no_exec_in_logs: "filter is_Exec (map SetLogMessage ms) = []"
  by (induction ms) simp_all

lemma no_download_in_logs: "filter is_Download (map SetLogMessage ms) = []"
  by (induction ms) simp_all

lemma convert_no_file:
  "files w = [] \<Longrightarrow>
   convert ffmpeg w =
     (Resolved, w\<lparr>trace := trace w @ [Alert ''Por favor selecciona un archivo primero.'']\<rparr>)"
  by (simp add: convert_def alert_def emit_def)

lemma exec_outcome:
  "exec ffmpeg args w =
     (if rejects (ffmpeg args (fs w)) then Some ExecFailed else None,
      engine_logs (log_lines (ffmpeg args (fs w)))
        (w\<lparr>trace := trace w @ [Exec args], fs := fs_after (ffmpeg args (fs w))\<rparr>))"
  by (simp add: exec_def emit_def Let_def)

lemmas run_defs =
  convert_def fetchFile_def setIsLoading_def writeFile_def readFile_def emit_def Let_def
  convert_try_def exec_outcome setLogMessage_def engine_logs_state engine_logs_world
  tokens_of_def engine_run_def new_events_def

subsection \<open>Failure of the engine's \<open>exec\<close>\<close>

text \<open>
  C6. If \<open>exec\<close> rejects, \<open>convert\<close> catches it: its promise resolves (nothing is
  re-thrown), \<open>logMessage\<close> ends as the one fixed failure message of line 109,
  \<^verbatim>\<open>Error durante la conversion.\<close> (the last \<open>o\<close> with an acute accent, code unit
  0xF3), whatever the engine logged, no download is triggered, the storage is left as
  the engine left it (the
  workflow makes no engine call after the failed \<open>exec\<close>, so the input written before
  is not rolled back), \<open>exec\<close> is called exactly once (no retry), and \<open>isLoading\<close> is
  false at the end.
\<close>

theorem exec_failure_caught:
  assumes picked: "files w = f # others"
    and readable: "file_bytes f = Some data"
    and fails: "rejects (engine_run ffmpeg w data)"
  shows "fst (convert ffmpeg w) = Resolved \<and>
    logMessage (state (snd (convert ffmpeg w))) =
      ''Error durante la conversi'' @ [CHR 0xF3] @ ''n.'' \<and>
    isLoading (state (snd (convert ffmpeg w))) = False \<and>
    fs (snd (convert ffmpeg w)) = fs_after (engine_run ffmpeg w data) \<and>
    trace (snd (convert ffmpeg w)) =
      trace w @
      [SetIsLoading True, WriteFile ''input'' data,
       ConsoleLog ''Ejecutando comando:'' (join '' '' (tokens_of w)), Exec (tokens_of w)] @
      map SetLogMessage (log_lines (engine_run ffmpeg w data)) @
      [ConsoleError ExecFailed,
       SetLogMessage (''Error durante la conversi'' @ [CHR 0xF3] @ ''n.''),
       SetIsLoading False] \<and>
    filter is_Exec (new_events w (snd (convert ffmpeg w))) = [Exec (tokens_of w)] \<and>
    filter is_Download (new_events w (snd (convert ffmpeg w))) = []"
  using assms
  by (simp add: run_defs no_exec_in_logs no_download_in_logs conversion_error_message_def)

theorem exec_failure_caught_witness:
  "files (ready_world initial_state [sample_file]) = sample_file # [] \<and>
   file_bytes sample_file = Some [0x4F, 0x67, 0x67, 0x53] \<and>
   rejects (engine_run failing_engine (ready_world initial_state [sample_file]) [0x4F, 0x67, 0x67, 0x53]) \<and>
   fst (convert failing_engine (ready_world initial_state [sample_file])) = Resolved \<and>
   logMessage (state (snd (convert failing_engine (ready_world initial_state [sample_file])))) =
     ''Error durante la conversi'' @ [CHR 0xF3] @ ''n.'' \<and>
   isLoading (state (snd (convert failing_engine (ready_world initial_state [sample_file])))) = False \<and>
   fs (snd (convert failing_engine (ready_world initial_state [sample_file]))) ''input'' =
     Some [0x4F, 0x67, 0x67, 0x53] \<and>
   trace (snd (convert failing_engine (ready_world initial_state [sample_file]))) =
     [SetIsLoading True, WriteFile ''input'' [0x4F, 0x67, 0x67, 0x53],
      ConsoleLog ''Ejecutando comando:'' ''-i input -ar 44100 -c:a pcm_s16le output.wav'',
      Exec [''-i'', ''input'', ''-ar'', ''44100'', ''-c:a'', ''pcm_s16le'', ''output.wav''],
      SetLogMessage ''Conversion failed!'', ConsoleError ExecFailed,
      SetLogMessage (''Error durante la conversi'' @ [CHR 0xF3] @ ''n.''), SetIsLoading False]"
proof -
  have picked: "files (ready_world initial_state [sample_file]) = sample_file # []"
    by (simp add: ready_world_def)
  have readable: "file_bytes sample_file = Some [0x4F, 0x67, 0x67, 0x53]"
    by (simp add: sample_file_def)
  have fails: "rejects (engine_run failing_engine (ready_world initial_state [sample_file])
      [0x4F, 0x67, 0x67, 0x53])"
    by (simp add: engine_run_def failing_engine_def)
  have toks: "tokens_of (ready_world initial_state [sample_file]) =
      [''-i'', ''input'', ''-ar'', ''44100'', ''-c:a'', ''pcm_s16le'', ''output.wav'']"
    by (simp add: tokens_of_def ready_world_def initial_state_def convert_args_wav)
  have after: "fs_after (engine_run failing_engine (ready_world initial_state [sample_file])
      [0x4F, 0x67, 0x67, 0x53]) ''input'' = Some [0x4F, 0x67, 0x67, 0x53]"
    by (simp add: engine_run_def failing_engine_def)
  have logs: "log_lines (engine_run failing_engine (ready_world initial_state [sample_file])
      [0x4F, 0x67, 0x67, 0x53]) = [''Conversion failed!'']"
    by (simp add: engine_run_def failing_engine_def)
  have tr: "trace (ready_world initial_state [sample_file]) = []"
    by (simp add: ready_world_def)
  from exec_failure_caught [OF picked readable fails] picked readable fails after
  show ?thesis
    by (simp add: toks logs tr)
qed

subsection \<open>No file picked\<close>

text \<open>
  C7. If no file is picked when \<open>convert\<close> runs, it issues the blocking notification
  and returns: the only new event is the alert, so nothing is written to the engine's
  storage, the engine is not invoked, and no download is produced.
\<close>

theorem no_file_no_engine:
  assumes "files w = []"
  shows "fst (convert ffmpeg w) = Resolved \<and>
    new_events w (snd (convert ffmpeg w)) = [Alert ''Por favor selecciona un archivo primero.''] \<and>
    fs (snd (convert ffmpeg w)) = fs w \<and>
    filter is_engine_call (new_events w (snd (convert ffmpeg w))) = [] \<and>
    filter is_Download (new_events w (snd (convert ffmpeg w))) = []"
  using assms by (simp add: convert_no_file new_events_def)

theorem no_file_no_engine_witness:
  "files (ready_world initial_state []) = [] \<and>
   fst (convert copying_engine (ready_world initial_state [])) = Resolved \<and>
   trace (snd (convert copying_engine (ready_world initial_state []))) =
     [Alert ''Por favor selecciona un archivo primero.''] \<and>
   fs (snd (convert copying_engine (ready_world initial_state []))) = Map.empty"
proof -
  have none: "files (ready_world initial_state []) = []"
    by (simp add: ready_world_def)
  have start: "trace (ready_world initial_state []) = [] \<and> fs (ready_world initial_state []) = Map.empty"
    by (simp add: ready_world_def)
  from no_file_no_engine [OF none, of copying_engine] none start show ?thesis
    by (simp add: new_events_def)
qed

subsection \<open>The busy flag\<close>

text \<open>
  Once the picked file has been read, every path of \<open>convert\<close> (the engine's
  \<open>exec\<close> rejecting, the output missing, success) sets \<open>isLoading\<close> first and clears
  it last, and the promise resolves.
\<close>

lemma busy_cleared_when_input_read:
  assumes picked: "files w = f # others"
    and readable: "file_bytes f = Some data"
  shows "fst (convert ffmpeg w) = Resolved \<and>
    isLoading (state (snd (convert ffmpeg w))) = False \<and>
    hd (new_events w (snd (convert ffmpeg w))) = SetIsLoading True \<and>
    last (new_events w (snd (convert ffmpeg w))) = SetIsLoading False"
  using assms by (simp add: run_defs split: option.splits)

text \<open>
  When reading the picked file fails (line 55, outside the \<open>try\<close>), the exception
  leaves \<open>convert\<close> after \<open>setIsLoading(true)\<close> and before \<open>setIsLoading(false)\<close>.
\<close>

lemma busy_stays_when_read_fails:
  assumes picked: "files w = f # others"
    and unreadable: "file_bytes f = None"
  shows "convert ffmpeg w = (Rejected NotReadable, setIsLoading True w) \<and>
    isLoading (state (snd (convert ffmpeg w))) = True"
  using assms by (simp add: convert_def fetchFile_def setIsLoading_def emit_def)

text \<open>
  C8. The claim is that the busy flag is false again whenever the workflow terminates,
  also when copying the input file into the engine's storage fails. The code at a
  picked file that cannot be read, with any engine: the promise is rejected, the only
  event is \<open>setIsLoading(true)\<close>, and \<open>isLoading\<close> stays true.
\<close>

theorem busy_stuck_when_read_fails:
  "convert ffmpeg (ready_world initial_state [unreadable_file]) =
     (Rejected NotReadable,
      (ready_world initial_state [unreadable_file])
        \<lparr>state := (initial_state\<lparr>loaded := True\<rparr>)\<lparr>isLoading := True\<rparr>,
         trace := [SetIsLoading True]\<rparr>) \<and>
   isLoading (state (snd (convert ffmpeg (ready_world initial_state [unreadable_file])))) = True"
  by (simp add: convert_def ready_world_def unreadable_file_def fetchFile_def setIsLoading_def
      emit_def)

subsection \<open>The download\<close>

text \<open>
  C9. On a successful conversion (\<open>exec\<close> resolves and the output is in the storage)
  exactly one download is triggered, with MIME type 'audio/<format>' and file name
  'convertido_<sampleRate>Hz_<bitDepth>bit.<format>', for every option combination: the
  bitDepth held in the state is in the name also when the format is mp3.
\<close>

theorem download_type_and_name:
  assumes picked: "files w = f # others"
    and readable: "file_bytes f = Some data"
    and resolves: "\<not> rejects (engine_run ffmpeg w data)"
    and produced: "fs_after (engine_run ffmpeg w data) (outputFilename (format (state w))) = Some out"
  shows "fst (convert ffmpeg w) = Resolved \<and>
    filter is_Download (new_events w (snd (convert ffmpeg w))) =
      [Download (''audio/'' @ format (state w))
         (''convertido_'' @ sampleRate (state w) @ ''Hz_'' @ bitDepth (state w) @ ''bit.'' @
          format (state w)) out] \<and>
    trace (snd (convert ffmpeg w)) =
      trace w @
      [SetIsLoading True, WriteFile ''input'' data,
       ConsoleLog ''Ejecutando comando:'' (join '' '' (tokens_of w)), Exec (tokens_of w)] @
      map SetLogMessage (log_lines (engine_run ffmpeg w data)) @
      [ReadFile (outputFilename (format (state w))),
       Download (''audio/'' @ format (state w))
         (''convertido_'' @ sampleRate (state w) @ ''Hz_'' @ bitDepth (state w) @ ''bit.'' @
          format (state w)) out,
       SetIsLoading False]"
  using assms by (simp add: run_defs no_download_in_logs)

theorem download_type_and_name_witness:
  "files mp3_world = sample_file # [] \<and>
   file_bytes sample_file = Some [0x4F, 0x67, 0x67, 0x53] \<and>
   \<not> rejects (engine_run copying_engine mp3_world [0x4F, 0x67, 0x67, 0x53]) \<and>
   fs_after (engine_run copying_engine mp3_world [0x4F, 0x67, 0x67, 0x53])
     (outputFilename (format (state mp3_world))) = Some [0x4F, 0x67, 0x67, 0x53] \<and>
   fst (convert copying_engine mp3_world) = Resolved \<and>
   filter is_Download (new_events mp3_world (snd (convert copying_engine mp3_world))) =
     [Download ''audio/mp3'' ''convertido_48000Hz_24bit.mp3'' [0x4F, 0x67, 0x67, 0x53]]"
proof -
  have picked: "files mp3_world = sample_file # []"
    by (simp add: mp3_world_def ready_world_def)
  have readable: "file_bytes sample_file = Some [0x4F, 0x67, 0x67, 0x53]"
    by (simp add: sample_file_def)
  have st: "format (state mp3_world) = ''mp3'' \<and> bitDepth (state mp3_world) = ''24'' \<and>
      sampleRate (state mp3_world) = ''48000''"
    by (simp add: mp3_world_def ready_world_def initial_state_def)
  have toks: "tokens_of mp3_world =
      [''-i'', ''input'', ''-ar'', ''48000'', ''-b:a'', ''320k'', ''output.mp3'']"
    by (simp add: tokens_of_def st convert_args_mp3)
  have resolves: "\<not> rejects (engine_run copying_engine mp3_world [0x4F, 0x67, 0x67, 0x53])"
    by (simp add: engine_run_def copying_engine_def)
  have produced: "fs_after (engine_run copying_engine mp3_world [0x4F, 0x67, 0x67, 0x53])
      (outputFilename (format (state mp3_world))) = Some [0x4F, 0x67, 0x67, 0x53]"
    by (simp add: engine_run_def copying_engine_def toks st outputFilename_def)
  from download_type_and_name [OF picked readable resolves produced]
    picked readable resolves produced
  show ?thesis by (simp add: st)
qed

subsection \<open>No file picked: the state\<close>

text \<open>
  C10. On the missing-file path \<open>convert\<close> changes no application state: \<open>isLoading\<close>
  is not set (the check runs before \<open>setIsLoading(true)\<close>), \<open>logMessage\<close> is unchanged,
  no state setter is called, and the world differs from the one before only by the
  alert.
\<close>

theorem no_file_state_untouched:
  assumes "files w = []"
  shows "state (snd (convert ffmpeg w)) = state w \<and>
    isLoading (state (snd (convert ffmpeg w))) = isLoading (state w) \<and>
    logMessage (state (snd (convert ffmpeg w))) = logMessage (state w) \<and>
    filter is_state_change (new_events w (snd (convert ffmpeg w))) = [] \<and>
    snd (convert ffmpeg w) =
      w\<lparr>trace := trace w @ [Alert ''Por favor selecciona un archivo primero.'']\<rparr>"
  using assms by (simp add: convert_no_file new_events_def)

theorem no_file_state_untouched_witness:
  "files (ready_world initial_state []) = [] \<and>
   isLoading (state (snd (convert failing_engine (ready_world initial_state [])))) = False \<and>
   logMessage (state (snd (convert failing_engine (ready_world initial_state [])))) =
     ''Listo para convertir'' \<and>
   snd (convert failing_engine (ready_world initial_state [])) =
     (ready_world initial_state [])\<lparr>trace := [Alert ''Por favor selecciona un archivo primero.'']\<rparr>"
proof -
  have none: "files (ready_world initial_state []) = []"
    by (simp add: ready_world_def)
  have start: "trace (ready_world initial_state []) = [] \<and>
      isLoading (state (ready_world initial_state [])) = False \<and>
      logMessage (state (ready_world initial_state [])) = ''Listo para convertir''"
    by (simp add: ready_world_def initial_state_def)
  from no_file_state_untouched [OF none, of failing_engine] none start show ?thesis
    by simp
qed

end
